theory Spec2Isabelle
  imports Complex_Main
begin

section \<open>The real OffWorld monolith environment\<close>

text \<open>
  Source: \<^verbatim>\<open>src/offworld_gym/envs/real/offworld_monolith_env.py\<close>, class
  \<^verbatim>\<open>OffWorldMonolithEnv\<close>. Exceptions are values of \<open>error\<close>; a method that can raise
  returns \<open>error + result\<close> together with the object as the raise left it, because Python
  keeps every attribute assignment made before the exception.
\<close>

datatype error =
    AssertionError string
  | GymException string
  | NotImplementedError string
  | ValueError string
  | IndexError string
  | AttributeError string
  | BackendError string

text \<open>
  Modelled from the spec: the enum \<^verbatim>\<open>FourDiscreteMotionActions\<close> of
  \<^verbatim>\<open>offworld_gym.envs.common.actions\<close> is imported by the environment but its declaration
  is not among the sources. Section 4.3 of the specification gives its members and values:
  0 is Left, 1 is Right, 2 is Forward, 3 is Backward.
\<close>

datatype FourDiscreteMotionActions = LEFT | RIGHT | FORWARD | BACKWARD

text \<open>
  \<^verbatim>\<open>FourDiscreteMotionActions(n)\<close>: the enum's lookup by value. Python raises
  \<^verbatim>\<open>ValueError\<close> for a value that no member has.
\<close>

definition FourDiscreteMotionActions_of :: "int \<Rightarrow> error + FourDiscreteMotionActions" where
  "FourDiscreteMotionActions_of n =
     (if n = 0 then Inr LEFT
      else if n = 1 then Inr RIGHT
      else if n = 2 then Inr FORWARD
      else if n = 3 then Inr BACKWARD
      else Inl (ValueError ''not a valid FourDiscreteMotionActions''))"

text \<open>
  Modelled from the spec: the enum \<^verbatim>\<open>Channels\<close> of \<^verbatim>\<open>offworld_gym.envs.common.channels\<close>
  is imported but not among the sources. Section 4.2 of the specification gives the three
  modes and their values, which the constructor reads as \<^verbatim>\<open>channel_type.value\<close>.
\<close>

datatype Channels = DEPTH_ONLY | RGB_ONLY | RGBD

fun Channels_value :: "Channels \<Rightarrow> nat" where
  "Channels_value DEPTH_ONLY = 1"
| "Channels_value RGB_ONLY = 3"
| "Channels_value RGBD = 4"

text \<open>
  The value a caller passes as \<^verbatim>\<open>action\<close>. Python is dynamically typed, so the argument
  is one of: \<^verbatim>\<open>None\<close>; an instance of \<^verbatim>\<open>int\<close>, \<^verbatim>\<open>np.int32\<close> or \<^verbatim>\<open>np.int64\<close> (a
  \<^verbatim>\<open>bool\<close> is an instance of \<^verbatim>\<open>int\<close> with value 0 or 1); a member of the enum; or an
  object of any other type (a float, a string, a list), of which only a description is kept.
\<close>

datatype py_action =
    PyNone
  | PyInt int
  | PyEnum FourDiscreteMotionActions
  | PyOther string

text \<open>The requests the environment sends through \<^verbatim>\<open>self.secured_bridge\<close>, in order.\<close>

datatype request =
    Handshake string bool
  | Action FourDiscreteMotionActions Channels
  | Reset Channels

text \<open>
  \<^verbatim>\<open>self.secured_bridge\<close>: the remote server's state \<open>remote\<close>, which only the server's
  replies depend on, and the log \<open>sent\<close> of the requests made so far.
\<close>

record 'w bridge =
  remote :: 'w
  sent :: "request list"

record ('o, 'w) OffWorldMonolithEnv =
  experiment_name :: string
  resume_experiment :: bool
  channel_type :: Channels
  step_count :: int
  last_state :: "'o option"
  secured_bridge :: "'w bridge"

definition EPISODE_LENGTH :: int where
  "EPISODE_LENGTH = 100"

text \<open>
  Modelled from the spec: the class \<^verbatim>\<open>ImageUtils\<close> that the environment imports on line
  29 is that of \<^verbatim>\<open>offworld_gym.envs.common.offworld_gym_utils\<close>, which is not among the
  sources. Section 3 of the specification fixes the width of an observation at 320 and its
  height at 240 (the class of the same name in \<^verbatim>\<open>gazebo/utils.py\<close>, lines 75 and 76, has
  the same two values).
\<close>

definition common_IMG_H :: nat where "common_IMG_H = 240"
definition common_IMG_W :: nat where "common_IMG_W = 320"

text \<open>
  Line 59: \<^verbatim>\<open>spaces.Box(0, 255, shape = (1, IMG_H, IMG_W, channel_type.value))\<close>; the
  shape of the observation space.
\<close>

definition observation_space_shape :: "Channels \<Rightarrow> nat list" where
  "observation_space_shape ct = [1, common_IMG_H, common_IMG_W, Channels_value ct]"

text \<open>Line 60: \<^verbatim>\<open>spaces.Discrete(4)\<close>.\<close>

definition action_space_n :: nat where
  "action_space_n = 4"

subsection \<open>step\<close>

text \<open>
  Lines 103 to 108 of \<^verbatim>\<open>step\<close>: the two assertions, then for an integer the range
  assertion and the conversion to the enum. A member of the enum passes unchanged.
\<close>

definition check_action :: "py_action \<Rightarrow> error + FourDiscreteMotionActions" where
  "check_action action =
     (case action of
        PyNone \<Rightarrow> Inl (AssertionError ''Action cannot be None.'')
      | PyOther _ \<Rightarrow> Inl (AssertionError ''Action type is not recognized.'')
      | PyInt n \<Rightarrow>
          (if n \<ge> 0 \<and> n < 4 then FourDiscreteMotionActions_of n
           else Inl (AssertionError ''Unrecognized value for the action''))
      | PyEnum a \<Rightarrow> Inr a)"

text \<open>
  The server's side of \<^verbatim>\<open>perform_action\<close> and \<^verbatim>\<open>perform_reset\<close> is not part of the
  repository's client code: it is a parameter, a function of the server's state. A failed
  exchange is an error value, which \<^verbatim>\<open>step\<close> and \<^verbatim>\<open>reset\<close> let through (they have no
  \<^verbatim>\<open>try\<close>).
\<close>

type_synonym ('o, 'r, 'w) action_server =
  "'w \<Rightarrow> FourDiscreteMotionActions \<Rightarrow> Channels \<Rightarrow> (error + ('o \<times> 'r \<times> bool)) \<times> 'w"

type_synonym ('o, 'w) reset_server =
  "'w \<Rightarrow> Channels \<Rightarrow> (error + 'o) \<times> 'w"

definition perform_action ::
  "('o, 'r, 'w) action_server \<Rightarrow> 'w bridge \<Rightarrow> FourDiscreteMotionActions \<Rightarrow> Channels
     \<Rightarrow> (error + ('o \<times> 'r \<times> bool)) \<times> 'w bridge" where
  "perform_action srv b a ct =
     (let (reply, w) = srv (remote b) a ct
      in (reply, \<lparr>remote = w, sent = sent b @ [Action a ct]\<rparr>))"

definition perform_reset ::
  "('o, 'w) reset_server \<Rightarrow> 'w bridge \<Rightarrow> Channels \<Rightarrow> (error + 'o) \<times> 'w bridge" where
  "perform_reset srv b ct =
     (let (reply, w) = srv (remote b) ct
      in (reply, \<lparr>remote = w, sent = sent b @ [Reset ct]\<rparr>))"

text \<open>
  \<^verbatim>\<open>step\<close>, lines 88 to 121. The result is the returned tuple
  \<^verbatim>\<open>(state, reward, done, {})\<close> (the empty dictionary is the empty list of pairs) or the
  exception, and the object afterwards.
\<close>

definition step ::
  "('o, 'r, 'w) action_server \<Rightarrow> ('o, 'w) OffWorldMonolithEnv \<Rightarrow> py_action
     \<Rightarrow> (error + ('o \<times> 'r \<times> bool \<times> (string \<times> string) list)) \<times> ('o, 'w) OffWorldMonolithEnv" where
  "step srv self action =
     (let self1 = self\<lparr>step_count := step_count self + 1\<rparr>
      in case check_action action of
           Inl e \<Rightarrow> (Inl e, self1)
         | Inr a \<Rightarrow>
             (case perform_action srv (secured_bridge self1) a (channel_type self1) of
                (Inl e, b) \<Rightarrow> (Inl e, self1\<lparr>secured_bridge := b\<rparr>)
              | (Inr (state, reward, done), b) \<Rightarrow>
                  (let self2 = self1\<lparr>secured_bridge := b, last_state := Some state\<rparr>;
                       done1 = (if step_count self2 = EPISODE_LENGTH then True else done);
                       self3 = (if done1 then self2\<lparr>step_count := 0\<rparr> else self2)
                   in (Inr (state, reward, done1, []), self3))))"

subsection \<open>reset\<close>

text \<open>\<^verbatim>\<open>reset\<close>, lines 123 to 131: one request to the bridge, whose reply is returned.\<close>

definition reset ::
  "('o, 'w) reset_server \<Rightarrow> ('o, 'w) OffWorldMonolithEnv
     \<Rightarrow> (error + 'o) \<times> ('o, 'w) OffWorldMonolithEnv" where
  "reset srv self =
     (let (reply, b) = perform_reset srv (secured_bridge self) (channel_type self)
      in (reply, self\<lparr>secured_bridge := b\<rparr>))"

subsection \<open>The handshake\<close>

text \<open>
  \<^verbatim>\<open>_initiate\<close>, lines 67 to 86. The server's reply to \<^verbatim>\<open>perform_handshake\<close> is a
  parameter, as is the clock that \<^verbatim>\<open>time.time()\<close> reads (a function of the state of the
  world, which moves on with every exchange). \<^verbatim>\<open>SetUpRequest.STATUS_RUNNING\<close> is a constant
  of a module that is not among the sources: it is the parameter \<open>STATUS_RUNNING\<close>, and
  \<open>'h\<close> is the type of heartbeat values.
\<close>

type_synonym ('h, 'w) handshake_server =
  "'w \<Rightarrow> string \<Rightarrow> bool \<Rightarrow> ('h option \<times> bool \<times> string) \<times> 'w"

definition perform_handshake ::
  "('h, 'w) handshake_server \<Rightarrow> 'w bridge \<Rightarrow> string \<Rightarrow> bool
     \<Rightarrow> ('h option \<times> bool \<times> string) \<times> 'w bridge" where
  "perform_handshake srv b name resume =
     (let (reply, w) = srv (remote b) name resume
      in (reply, \<lparr>remote = w, sent = sent b @ [Handshake name resume]\<rparr>))"

text \<open>
  How one statement of the loop body ends: \<^verbatim>\<open>continue\<close>, \<^verbatim>\<open>break\<close> (with the message
  that was logged), \<^verbatim>\<open>raise\<close>, or control passing on to the statement after it.
\<close>

datatype flow = Continue | Break string | Raise error | Next

text \<open>The \<^verbatim>\<open>if\<close>/\<^verbatim>\<open>elif\<close>/\<^verbatim>\<open>else\<close> chain of lines 74 to 82.\<close>

definition initiate_branch :: "'h \<Rightarrow> 'h option \<times> bool \<times> string \<Rightarrow> flow" where
  "initiate_branch STATUS_RUNNING reply =
     (case reply of (heartbeat, registered, message) \<Rightarrow>
        if heartbeat = None then Continue
        else if heartbeat = Some STATUS_RUNNING \<and> registered then Break message
        else if heartbeat = Some STATUS_RUNNING \<and> \<not> registered then Raise (GymException message)
        else Raise (GymException ''Gym server is not ready.''))"

text \<open>
  The \<^verbatim>\<open>while True\<close> loop of lines 72 to 84: the handshake, the chain above, and after it
  the comparison of the elapsed time with 60 seconds (lines 83 and 84). The loop has no
  bound of its own, so it is a partial function: \<open>None\<close> is a loop that never ends.
\<close>

partial_function (option) initiate_loop ::
  "'h \<Rightarrow> ('h, 'w) handshake_server \<Rightarrow> ('w \<Rightarrow> real) \<Rightarrow> string \<Rightarrow> bool \<Rightarrow> real \<Rightarrow> 'w bridge
     \<Rightarrow> ((error + string) \<times> 'w bridge) option" where
  "initiate_loop STATUS_RUNNING srv clock name resume wait_start b =
     (case perform_handshake srv b name resume of (reply, b1) \<Rightarrow>
        (case initiate_branch STATUS_RUNNING reply of
           Continue \<Rightarrow> initiate_loop STATUS_RUNNING srv clock name resume wait_start b1
         | Break message \<Rightarrow> Some (Inr message, b1)
         | Raise e \<Rightarrow> Some (Inl e, b1)
         | Next \<Rightarrow>
             if clock (remote b1) - wait_start > 60
             then Some (Inl (GymException ''Connect to the environment server timed out.''), b1)
             else initiate_loop STATUS_RUNNING srv clock name resume wait_start b1))"

definition initiate ::
  "'h \<Rightarrow> ('h, 'w) handshake_server \<Rightarrow> ('w \<Rightarrow> real) \<Rightarrow> ('o, 'w) OffWorldMonolithEnv
     \<Rightarrow> ((error + string) \<times> ('o, 'w) OffWorldMonolithEnv) option" where
  "initiate STATUS_RUNNING srv clock self =
     (let wait_start = clock (remote (secured_bridge self))
      in case initiate_loop STATUS_RUNNING srv clock (experiment_name self)
                (resume_experiment self) wait_start (secured_bridge self) of
           None \<Rightarrow> None
         | Some (r, b) \<Rightarrow> Some (r, self\<lparr>secured_bridge := b\<rparr>))"

section \<open>Image utilities\<close>

text \<open>
  Source: \<^verbatim>\<open>src/offworld_gym/envs/gazebo/utils.py\<close>, class \<^verbatim>\<open>ImageUtils\<close>.

  An element of an array is a number or one of the three special values of IEEE
  arithmetic. Of the rounding of floating-point numbers only the two ends are modelled:
  a magnitude too large for \<^verbatim>\<open>float32\<close> becomes an infinity and one too small becomes 0;
  every other finite element is a real number, kept as it is. The properties below
  concern the special values, the order of the elements and the shapes.
\<close>

datatype fval = Finite real | PosInf | NegInf | NaN

datatype dtype = uint8 | float32 | float64

text \<open>
  A numpy array: its shape, the type of its elements and the elements in row-major order.
\<close>

record ndarray =
  shape :: "nat list"
  dtype :: dtype
  data :: "fval list"

text \<open>Lines 75 to 77.\<close>

definition IMG_H :: nat where "IMG_H = 240"
definition IMG_W :: nat where "IMG_W = 320"
definition IMG_C :: nat where "IMG_C = 3"

fun is_finite :: "fval \<Rightarrow> bool" where
  "is_finite (Finite x) = True"
| "is_finite _ = False"

text \<open>No element is NaN or infinite.\<close>

definition all_finite :: "ndarray \<Rightarrow> bool" where
  "all_finite a = list_all is_finite (data a)"

text \<open>An element lies in the interval from 0 to 1.\<close>

fun in_unit :: "fval \<Rightarrow> bool" where
  "in_unit (Finite x) = (0 \<le> x \<and> x \<le> 1)"
| "in_unit _ = False"

text \<open>
  An array as numpy keeps it: as many elements as the shape says, and in an array of
  8-bit integers every element a whole number from 0 to 255.
\<close>

fun is_uint8 :: "fval \<Rightarrow> bool" where
  "is_uint8 (Finite x) = (0 \<le> x \<and> x \<le> 255 \<and> x = of_int \<lfloor>x\<rfloor>)"
| "is_uint8 _ = False"

definition wellformed :: "ndarray \<Rightarrow> bool" where
  "wellformed a =
     (length (data a) = prod_list (shape a)
      \<and> (dtype a = uint8 \<longrightarrow> list_all is_uint8 (data a)))"

subsection \<open>The arithmetic of numpy\<close>

text \<open>
  The largest finite value of \<^verbatim>\<open>float32\<close> (about 3.4028235e38), the smallest magnitude
  that rounds to an infinity, the largest magnitude that rounds to 0, and the largest finite
  value of \<^verbatim>\<open>float64\<close>.
\<close>

definition FLT_MAX :: real where
  "FLT_MAX = (2 ^ 24 - 1) * 2 ^ 104"

definition FLT_OVERFLOW :: real where
  "FLT_OVERFLOW = 2 ^ 128 - 2 ^ 103"

definition FLT_UNDERFLOW :: real where
  "FLT_UNDERFLOW = 1 / 2 ^ 150"

definition DBL_MAX :: real where
  "DBL_MAX = (2 ^ 53 - 1) * 2 ^ 971"

text \<open>The conversion of a value to \<^verbatim>\<open>float32\<close>.\<close>

fun cast_float32 :: "fval \<Rightarrow> fval" where
  "cast_float32 (Finite x) =
     (if FLT_OVERFLOW \<le> x then PosInf
      else if x \<le> - FLT_OVERFLOW then NegInf
      else if \<bar>x\<bar> \<le> FLT_UNDERFLOW then Finite 0
      else Finite x)"
| "cast_float32 v = v"

text \<open>
  The type in which numpy computes with an array and a Python number: an integer array
  becomes \<^verbatim>\<open>float64\<close>, a floating-point array keeps its type, and the number is converted
  to that type. (For a number of magnitude 3.4e38 or more, or a special value, numpy before
  version 2 computes a \<^verbatim>\<open>float32\<close> array in \<^verbatim>\<open>float64\<close> instead; no property below concerns
  a \<^verbatim>\<open>float32\<close> array with such a number.)
\<close>

fun result_dtype :: "dtype \<Rightarrow> dtype" where
  "result_dtype uint8 = float64"
| "result_dtype float32 = float32"
| "result_dtype float64 = float64"

definition as_dtype :: "dtype \<Rightarrow> fval \<Rightarrow> fval" where
  "as_dtype dt v = (if dt = float32 then cast_float32 v else v)"

text \<open>
  The order of two values; a comparison with NaN is false.
\<close>

fun fless :: "fval \<Rightarrow> fval \<Rightarrow> bool" where
  "fless (Finite x) (Finite y) = (x < y)"
| "fless (Finite x) PosInf = True"
| "fless NegInf (Finite y) = True"
| "fless NegInf PosInf = True"
| "fless _ _ = False"

text \<open>\<^verbatim>\<open>np.maximum\<close> and \<^verbatim>\<open>np.minimum\<close> of two values: NaN when either is NaN.\<close>

definition maximum :: "fval \<Rightarrow> fval \<Rightarrow> fval" where
  "maximum a b = (if a = NaN \<or> b = NaN then NaN else if fless a b then b else a)"

definition minimum :: "fval \<Rightarrow> fval \<Rightarrow> fval" where
  "minimum a b = (if a = NaN \<or> b = NaN then NaN else if fless b a then b else a)"

text \<open>
  The quotient of two values. numpy does not raise on a zero divisor: 0 / 0 is NaN and a
  nonzero number over 0 is an infinity (with a warning). A zero has no sign here.
\<close>

fun divide :: "fval \<Rightarrow> fval \<Rightarrow> fval" where
  "divide NaN _ = NaN"
| "divide _ NaN = NaN"
| "divide (Finite x) (Finite c) =
     (if c = 0 then (if x = 0 then NaN else if 0 < x then PosInf else NegInf)
      else Finite (x / c))"
| "divide (Finite x) _ = Finite 0"
| "divide PosInf (Finite c) = (if c < 0 then NegInf else PosInf)"
| "divide NegInf (Finite c) = (if c < 0 then PosInf else NegInf)"
| "divide _ _ = NaN"

text \<open>An element clipped to the range from 0 to \<open>c\<close> and then divided by \<open>c\<close>.\<close>

definition clip_divide_elem :: "real \<Rightarrow> fval \<Rightarrow> fval" where
  "clip_divide_elem c v = divide (minimum (Finite c) (maximum v (Finite 0))) (Finite c)"

text \<open>
  \<^verbatim>\<open>np.asarray(cv_image, dtype=np.float32)\<close>, line 101: the elements converted to
  \<^verbatim>\<open>float32\<close>.
\<close>

definition asarray_float32 :: "ndarray \<Rightarrow> ndarray" where
  "asarray_float32 a = a\<lparr>dtype := float32, data := map cast_float32 (data a)\<rparr>"

text \<open>
  \<^verbatim>\<open>np.nan_to_num(img)\<close> with its default arguments, as numpy documents it: NaN becomes
  0, positive infinity the largest finite value of the array's type and negative infinity
  the most negative one. An integer array has no such element.
\<close>

fun dtype_max :: "dtype \<Rightarrow> real" where
  "dtype_max uint8 = 255"
| "dtype_max float32 = FLT_MAX"
| "dtype_max float64 = DBL_MAX"

fun nan_to_num_elem :: "real \<Rightarrow> fval \<Rightarrow> fval" where
  "nan_to_num_elem mx NaN = Finite 0"
| "nan_to_num_elem mx PosInf = Finite mx"
| "nan_to_num_elem mx NegInf = Finite (- mx)"
| "nan_to_num_elem mx (Finite x) = Finite x"

definition nan_to_num :: "ndarray \<Rightarrow> ndarray" where
  "nan_to_num a = a\<lparr>data := map (nan_to_num_elem (dtype_max (dtype a))) (data a)\<rparr>"

text \<open>
  \<^verbatim>\<open>np.clip(img, a_min, a_max)\<close> is \<^verbatim>\<open>np.minimum(a_max, np.maximum(img, a_min))\<close>, element
  by element: NaN stays NaN, and when \<^verbatim>\<open>a_min > a_max\<close> every other element becomes
  \<^verbatim>\<open>a_max\<close>.
\<close>

definition clip :: "ndarray \<Rightarrow> fval \<Rightarrow> fval \<Rightarrow> ndarray" where
  "clip a a_min a_max =
     (let dt = result_dtype (dtype a)
      in \<lparr>shape = shape a, dtype = dt,
          data = map (\<lambda>v. minimum (as_dtype dt a_max) (maximum v (as_dtype dt a_min)))
                   (data a)\<rparr>)"

text \<open>\<^verbatim>\<open>img / c\<close> for an array and a Python number.\<close>

definition true_divide :: "ndarray \<Rightarrow> fval \<Rightarrow> ndarray" where
  "true_divide a c =
     (let dt = result_dtype (dtype a)
      in \<lparr>shape = shape a, dtype = dt,
          data = map (\<lambda>v. as_dtype dt (divide v (as_dtype dt c))) (data a)\<rparr>)"

text \<open>
  \<^verbatim>\<open>np.reshape(img, newshape)\<close>: the same elements under a new shape, a
  \<^verbatim>\<open>ValueError\<close> when the sizes differ. \<^verbatim>\<open>img.shape[i]\<close> raises \<^verbatim>\<open>IndexError\<close> past the
  last dimension.
\<close>

definition reshape :: "ndarray \<Rightarrow> nat list \<Rightarrow> error + ndarray" where
  "reshape a newshape =
     (if prod_list newshape = length (data a) then Inr (a\<lparr>shape := newshape\<rparr>)
      else Inl (ValueError ''cannot reshape array''))"

definition shape_at :: "ndarray \<Rightarrow> nat \<Rightarrow> error + nat" where
  "shape_at a i =
     (if i < length (shape a) then Inr (shape a ! i)
      else Inl (IndexError ''tuple index out of range''))"

subsection \<open>The two methods\<close>

text \<open>Sequencing of statements that can raise: the first error ends the function.\<close>

definition bind :: "error + 'a \<Rightarrow> ('a \<Rightarrow> error + 'b) \<Rightarrow> error + 'b" where
  "bind m f = (case m of Inl e \<Rightarrow> Inl e | Inr x \<Rightarrow> f x)"

text \<open>
  The functions of \<^verbatim>\<open>cv_bridge\<close> and OpenCV that the two methods call are not code of
  this repository; they are parameters. \<open>'m\<close> is the type of ROS image messages.
\<close>

record 'm cv =
  imgmsg_to_cv2 :: "'m \<Rightarrow> string \<Rightarrow> error + ndarray"
  cvtColor_BGR2RGB :: "ndarray \<Rightarrow> error + ndarray"
  resize :: "ndarray \<Rightarrow> nat \<times> nat \<Rightarrow> error + ndarray"

text \<open>
  The first argument of a method is an image message, or, when a method is applied to
  what a method returned, a numpy array. \<^verbatim>\<open>CvBridge().imgmsg_to_cv2\<close> reads the
  attributes of a message (its encoding first), which an array does not have.
\<close>

datatype 'm py_image = ImageMsg 'm | NdArray ndarray

definition CvBridge_imgmsg_to_cv2 :: "'m cv \<Rightarrow> 'm py_image \<Rightarrow> string \<Rightarrow> error + ndarray" where
  "CvBridge_imgmsg_to_cv2 cv img_msg desired_encoding =
     (case img_msg of
        ImageMsg m \<Rightarrow> imgmsg_to_cv2 cv m desired_encoding
      | NdArray a \<Rightarrow>
          Inl (AttributeError ''numpy.ndarray object has no attribute encoding''))"

text \<open>
  Lines 90 to 92 and again 107 to 109: with a maximum, clip to the range from 0.0 to the
  maximum and divide by the maximum; without one, the array as it is. The maximum is a
  Python number, which may be an infinity or NaN.
\<close>

definition clip_and_normalize :: "fval option \<Rightarrow> ndarray \<Rightarrow> ndarray" where
  "clip_and_normalize max_value_for_clip_and_normalize img =
     (case max_value_for_clip_and_normalize of
        None \<Rightarrow> img
      | Some c \<Rightarrow> true_divide (clip img (Finite 0) c) c)"

text \<open>\<^verbatim>\<open>process_img_msg\<close>, lines 79 to 94.\<close>

definition process_img_msg ::
  "'m cv \<Rightarrow> 'm py_image \<Rightarrow> nat \<Rightarrow> nat \<Rightarrow> fval option \<Rightarrow> error + ndarray" where
  "process_img_msg cv img_msg resized_width resized_height max_value_for_clip_and_normalize =
     bind (CvBridge_imgmsg_to_cv2 cv img_msg ''bgr8'') (\<lambda>img.
     bind (cvtColor_BGR2RGB cv img) (\<lambda>img.
     bind (resize cv img (resized_width, resized_height)) (\<lambda>img.
     bind (shape_at img 0) (\<lambda>s0.
     bind (shape_at img 1) (\<lambda>s1.
     bind (shape_at img 2) (\<lambda>s2.
     bind (reshape img [1, s0, s1, s2]) (\<lambda>img.
     Inr (clip_and_normalize max_value_for_clip_and_normalize img))))))))"

text \<open>\<^verbatim>\<open>process_depth_msg\<close>, lines 96 to 111.\<close>

definition process_depth_msg ::
  "'m cv \<Rightarrow> 'm py_image \<Rightarrow> nat \<Rightarrow> nat \<Rightarrow> fval option \<Rightarrow> error + ndarray" where
  "process_depth_msg cv depth_msg resized_width resized_height max_value_for_clip_and_normalize =
     bind (CvBridge_imgmsg_to_cv2 cv depth_msg ''32FC1'') (\<lambda>cv_image.
     bind (resize cv (nan_to_num (asarray_float32 cv_image))
             (resized_width, resized_height)) (\<lambda>img.
     bind (shape_at img 0) (\<lambda>s0.
     bind (shape_at img 1) (\<lambda>s1.
     bind (reshape img [1, s0, s1, 1]) (\<lambda>img.
     Inr (clip_and_normalize max_value_for_clip_and_normalize img))))))"

subsection \<open>Stand-ins for the image libraries\<close>

text \<open>
  For evaluation at concrete frames. In both stand-ins a message is the decoded array
  itself. The first exchanges the first and third channel of every pixel and resizes by
  nearest neighbour, rejecting an empty image; an index past the end reads 0.
\<close>

fun swap_BGR :: "fval list \<Rightarrow> fval list" where
  "swap_BGR (b # g # r # rest) = r # g # b # swap_BGR rest"
| "swap_BGR rest = rest"

definition pick :: "fval list \<Rightarrow> nat \<Rightarrow> fval" where
  "pick d i = (if i < length d then d ! i else Finite 0)"

definition resize_nearest :: "ndarray \<Rightarrow> nat \<times> nat \<Rightarrow> error + ndarray" where
  "resize_nearest a dsize =
     (case dsize of (w, h) \<Rightarrow>
        (case shape a of
           [H, W] \<Rightarrow>
             if H = 0 \<or> W = 0 \<or> w = 0 \<or> h = 0 then Inl (BackendError ''empty image'')
             else Inr \<lparr>shape = [h, w], dtype = dtype a,
                       data = concat (map (\<lambda>y. map (\<lambda>x.
                                pick (data a) ((y * H div h) * W + x * W div w)) [0..<w]) [0..<h])\<rparr>
         | [H, W, C] \<Rightarrow>
             if H = 0 \<or> W = 0 \<or> w = 0 \<or> h = 0 then Inl (BackendError ''empty image'')
             else Inr \<lparr>shape = [h, w, C], dtype = dtype a,
                       data = concat (map (\<lambda>y. concat (map (\<lambda>x. map (\<lambda>k.
                                pick (data a) (((y * H div h) * W + x * W div w) * C + k))
                                [0..<C]) [0..<w])) [0..<h])\<rparr>
         | _ \<Rightarrow> Inl (BackendError ''unsupported dimensions'')))"

definition test_cv :: "ndarray cv" where
  "test_cv = \<lparr>imgmsg_to_cv2 = (\<lambda>msg encoding. Inr msg),
              cvtColor_BGR2RGB = (\<lambda>a. Inr (a\<lparr>data := swap_BGR (data a)\<rparr>)),
              resize = resize_nearest\<rparr>"

text \<open>
  The second resizes a single-channel \<^verbatim>\<open>float32\<close> image by linear interpolation, first
  along the rows and then along the columns, with pixel centres aligned and the border
  repeated. The interpolation between two neighbours \<open>a\<close> and \<open>b\<close> at the fraction \<open>t\<close> is
  computed as \<open>a + (b - a) * t\<close> in \<^verbatim>\<open>float32\<close>, so that a difference too large for
  \<^verbatim>\<open>float32\<close> is an infinity.
\<close>

fun add32 :: "fval \<Rightarrow> fval \<Rightarrow> fval" where
  "add32 NaN _ = NaN"
| "add32 _ NaN = NaN"
| "add32 (Finite x) (Finite y) = cast_float32 (Finite (x + y))"
| "add32 PosInf NegInf = NaN"
| "add32 NegInf PosInf = NaN"
| "add32 (Finite x) v = v"
| "add32 v _ = v"

fun neg32 :: "fval \<Rightarrow> fval" where
  "neg32 (Finite x) = Finite (- x)"
| "neg32 PosInf = NegInf"
| "neg32 NegInf = PosInf"
| "neg32 NaN = NaN"

fun mul32 :: "fval \<Rightarrow> real \<Rightarrow> fval" where
  "mul32 NaN t = NaN"
| "mul32 (Finite x) t = cast_float32 (Finite (x * t))"
| "mul32 v t = (if t = 0 then NaN else if 0 < t then v else neg32 v)"

definition lerp32 :: "fval \<Rightarrow> fval \<Rightarrow> real \<Rightarrow> fval" where
  "lerp32 a b t = add32 a (mul32 (add32 b (neg32 a)) t)"

text \<open>
  The source position of the destination index \<open>d\<close>: the indices of the two neighbours
  and the fraction, for the coordinate \<open>(d + 1/2) * n_src / n_dst - 1/2\<close>. Past either
  end both neighbours are the border pixel.
\<close>

definition source_position :: "nat \<Rightarrow> nat \<Rightarrow> nat \<Rightarrow> nat \<times> nat \<times> real" where
  "source_position n_src n_dst d =
     (let num = (2 * int d + 1) * int n_src - int n_dst;
          den = 2 * int n_dst;
          s = num div den
      in if s < 0 then (0, 0, 0)
         else if int n_src - 1 \<le> s then (n_src - 1, n_src - 1, 0)
         else (nat s, nat s + 1, real_of_int (num mod den) / real_of_int den))"

definition resize_line :: "fval list \<Rightarrow> nat \<Rightarrow> fval list" where
  "resize_line xs n_dst =
     map (\<lambda>d. case source_position (length xs) n_dst d of
                (s, s', t) \<Rightarrow> lerp32 (pick xs s) (pick xs s') t)
         [0..<n_dst]"

definition resize_linear :: "ndarray \<Rightarrow> nat \<times> nat \<Rightarrow> error + ndarray" where
  "resize_linear a dsize =
     (case dsize of (w, h) \<Rightarrow>
        (case shape a of
           [H, W] \<Rightarrow>
             if H = 0 \<or> W = 0 \<or> w = 0 \<or> h = 0 then Inl (BackendError ''empty image'')
             else
               (let rows = map (\<lambda>y. resize_line (take W (drop (y * W) (data a))) w) [0..<H];
                    cols = map (\<lambda>x. resize_line (map (\<lambda>row. pick row x) rows) h) [0..<w]
                in Inr \<lparr>shape = [h, w], dtype = dtype a,
                        data = concat (map (\<lambda>y. map (\<lambda>col. pick col y) cols) [0..<h])\<rparr>)
         | _ \<Rightarrow> Inl (BackendError ''unsupported dimensions'')))"

definition linear_cv :: "ndarray cv" where
  "linear_cv = \<lparr>imgmsg_to_cv2 = (\<lambda>msg encoding. Inr msg),
                cvtColor_BGR2RGB = (\<lambda>a. Inr a),
                resize = resize_linear\<rparr>"

text \<open>
  Frames for evaluation: a colour frame of one row and two pixels; a depth frame of two
  rows and two columns that holds each special value; a depth frame of one column that
  holds both infinities; a colour frame of the observation's size whose every element is
  1; and two arrays of the observation's shape, of ones and of twos.
\<close>

definition color_frame :: ndarray where
  "color_frame = \<lparr>shape = [1, 2, 3], dtype = uint8,
     data = [Finite 10, Finite 20, Finite 30, Finite 40, Finite 50, Finite 60]\<rparr>"

definition depth_frame :: ndarray where
  "depth_frame = \<lparr>shape = [2, 2], dtype = float32,
     data = [PosInf, NaN, NegInf, Finite 3]\<rparr>"

definition column_frame :: ndarray where
  "column_frame = \<lparr>shape = [2, 1], dtype = float32, data = [PosInf, NegInf]\<rparr>"





section \<open>Callers and test doubles\<close>

text \<open>A caller that makes one \<^verbatim>\<open>step\<close> call per action of a list and keeps every result.\<close>

fun steps ::
  "('o, 'r, 'w) action_server \<Rightarrow> ('o, 'w) OffWorldMonolithEnv \<Rightarrow> py_action list
     \<Rightarrow> (error + ('o \<times> 'r \<times> bool \<times> (string \<times> string) list)) list
         \<times> ('o, 'w) OffWorldMonolithEnv" where
  "steps srv self [] = ([], self)"
| "steps srv self (a # as) =
     (let (r, self1) = step srv self a;
          (rs, self2) = steps srv self1 as
      in (r # rs, self2))"

text \<open>The \<^verbatim>\<open>done\<close> flag of a result of \<^verbatim>\<open>step\<close>; none when the call raised.\<close>

fun done_of :: "error + ('o \<times> 'r \<times> bool \<times> 'i) \<Rightarrow> bool option" where
  "done_of (Inl e) = None"
| "done_of (Inr (state, reward, d, info)) = Some d"

fun is_AssertionError :: "error + 'a \<Rightarrow> bool" where
  "is_AssertionError (Inl (AssertionError m)) = True"
| "is_AssertionError _ = False"

text \<open>An action that passes the checks of lines 103 to 108.\<close>

definition valid_action :: "py_action \<Rightarrow> bool" where
  "valid_action a = (case check_action a of Inl _ \<Rightarrow> False | Inr _ \<Rightarrow> True)"

text \<open>A server that answers every action and never reports the episode done.\<close>

definition never_done :: "('o, 'r, 'w) action_server \<Rightarrow> bool" where
  "never_done srv =
     (\<forall>w a ct. \<exists>state reward w'. srv w a ct = (Inr (state, reward, False), w'))"

text \<open>A server that never answers a handshake: every poll yields no heartbeat.\<close>

definition never_responds :: "('h, 'w) handshake_server \<Rightarrow> bool" where
  "never_responds srv = (\<forall>w name resume. fst (fst (srv w name resume)) = None)"

text \<open>
  Test doubles. The state of the mock server is the number of requests it has answered;
  its observation is that number, its reward 0, its done flag false. Its clock advances
  one second per request.
\<close>

definition mock_action_server :: "(nat, int, nat) action_server" where
  "mock_action_server w a ct = (Inr (w, 0, False), Suc w)"

definition mock_reset_server :: "(nat, nat) reset_server" where
  "mock_reset_server w ct = (Inr w, Suc w)"

definition silent_server :: "(nat, nat) handshake_server" where
  "silent_server w name resume = ((None, False, []), Suc w)"

text \<open>A server that is silent for three polls and then accepts the registration.\<close>

definition late_server :: "(nat, nat) handshake_server" where
  "late_server w name resume =
     ((if w < 3 then None else Some 1, True, ''registered''), Suc w)"

definition mock_clock :: "nat \<Rightarrow> real" where
  "mock_clock w = real w"

definition mock_env :: "(nat, nat) OffWorldMonolithEnv" where
  "mock_env = \<lparr>experiment_name = ''test-1'', resume_experiment = False,
     channel_type = RGB_ONLY, step_count = 0, last_state = None,
     secured_bridge = \<lparr>remote = 0, sent = []\<rparr>\<rparr>"

section \<open>Properties of the environment\<close>

lemma step_never_done:
  assumes "valid_action a" and "never_done srv"
  shows "done_of (fst (step srv self a)) = Some (step_count self + 1 = EPISODE_LENGTH)"
    and "step_count (snd (step srv self a)) =
           (if step_count self + 1 = EPISODE_LENGTH then 0 else step_count self + 1)"
proof -
  from assms(1) obtain m where m: "check_action a = Inr m"
    by (auto simp: valid_action_def split: sum.splits)
  from assms(2) obtain state reward w' where
    s: "srv (remote (secured_bridge self)) m (channel_type self) = (Inr (state, reward, False), w')"
    unfolding never_done_def by blast
  show "done_of (fst (step srv self a)) = Some (step_count self + 1 = EPISODE_LENGTH)"
    by (simp add: step_def m perform_action_def s Let_def)
  show "step_count (snd (step srv self a)) =
           (if step_count self + 1 = EPISODE_LENGTH then 0 else step_count self + 1)"
    by (simp add: step_def m perform_action_def s Let_def)
qed

lemma length_steps: "length (fst (steps srv self as)) = length as"
proof (induction as arbitrary: self)
  case Nil
  then show ?case by simp
next
  case (Cons a as)
  obtain r self1 where st: "step srv self a = (r, self1)" by (cases "step srv self a")
  obtain rs self2 where sts: "steps srv self1 as = (rs, self2)" by (cases "steps srv self1 as")
  have "length rs = length as" using Cons.IH[of self1] sts by simp
  then show ?case using st sts by simp
qed

text \<open>
  From a counter below 100, as long as the calls do not take it past 100: the call that
  takes the counter to 100 is the one that returns done, and it leaves the counter at 0.
\<close>

lemma steps_never_done:
  assumes "never_done srv"
  shows "\<forall>a \<in> set as. valid_action a \<Longrightarrow> step_count self < 100 \<Longrightarrow>
         step_count self + int (length as) \<le> 100 \<Longrightarrow>
         (\<forall>i < length as. done_of (fst (steps srv self as) ! i)
             = Some (step_count self + int i + 1 = 100))
         \<and> step_count (snd (steps srv self as)) =
             (if step_count self + int (length as) = 100 then 0
              else step_count self + int (length as))"
proof (induction as arbitrary: self)
  case Nil
  then show ?case by simp
next
  case (Cons a as)
  obtain r self1 where st: "step srv self a = (r, self1)" by (cases "step srv self a")
  obtain rs self2 where sts: "steps srv self1 as = (rs, self2)" by (cases "steps srv self1 as")
  have va: "valid_action a" using Cons.prems by simp
  have r: "done_of r = Some (step_count self + 1 = 100)"
    using step_never_done(1)[OF va assms, of self] st by (simp add: EPISODE_LENGTH_def)
  have c1: "step_count self1 = (if step_count self + 1 = 100 then 0 else step_count self + 1)"
    using step_never_done(2)[OF va assms, of self] st by (simp add: EPISODE_LENGTH_def)
  show ?case
  proof (cases "step_count self + 1 = 100")
    case True
    then have "as = []" using Cons.prems(3) by simp
    then show ?thesis using st r c1 True by simp
  next
    case False
    then have c1': "step_count self1 = step_count self + 1" using c1 by simp
    have b: "step_count self1 < 100" "step_count self1 + int (length as) \<le> 100"
      using c1' False Cons.prems(2,3) by auto
    have IH: "(\<forall>i < length as. done_of (rs ! i) = Some (step_count self1 + int i + 1 = 100))
         \<and> step_count self2 = (if step_count self1 + int (length as) = 100 then 0
              else step_count self1 + int (length as))"
      using Cons.IH[of self1] Cons.prems(1) b sts by simp
    have d: "done_of ((r # rs) ! i) = Some (step_count self + int i + 1 = 100)"
      if i: "i < length (a # as)" for i
    proof (cases i)
      case 0
      then show ?thesis using r by simp
    next
      case (Suc j)
      then have "j < length as" using i by simp
      then have "done_of (rs ! j) = Some (step_count self1 + int j + 1 = 100)"
        using IH by blast
      then show ?thesis using Suc c1' by (simp add: algebra_simps)
    qed
    have e: "step_count self2 = (if step_count self + int (length (a # as)) = 100 then 0
              else step_count self + int (length (a # as)))"
      using IH c1' by (simp add: algebra_simps)
    show ?thesis using d e st sts by simp
  qed
qed

lemma step_done_resets:
  assumes "done_of (fst (step srv self a)) = Some True"
  shows "step_count (snd (step srv self a)) = 0"
  using assms
  by (auto simp: step_def Let_def split: sum.splits prod.splits if_splits)

lemma never_done_mock: "never_done mock_action_server"
  by (simp add: never_done_def mock_action_server_def)

lemma valid_action_PyInt: "valid_action (PyInt n) = (0 \<le> n \<and> n < 4)"
  by (simp add: valid_action_def check_action_def FourDiscreteMotionActions_of_def)

text \<open>
  C3. From a fresh counter, with valid actions and a server that never reports done: the
  first 99 calls of \<^verbatim>\<open>step\<close> return done = False, the 100th returns done = True and
  leaves the counter at 0; and whatever the server and the state, a call that returns
  done = True leaves the counter at 0.
\<close>

theorem step_done_exactly_on_100th:
  assumes "never_done srv" and "\<forall>a \<in> set as. valid_action a"
    and "step_count self = 0" and "length as = 100"
  shows "(\<forall>i < 99. done_of (fst (steps srv self as) ! i) = Some False)
       \<and> done_of (fst (steps srv self as) ! 99) = Some True
       \<and> step_count (snd (steps srv self as)) = 0
       \<and> (\<forall>srv' self' a. done_of (fst (step srv' self' a)) = Some True
             \<longrightarrow> step_count (snd (step srv' self' (a::py_action))) = 0)"
proof -
  have k: "(\<forall>i < length as. done_of (fst (steps srv self as) ! i)
             = Some (step_count self + int i + 1 = 100))
         \<and> step_count (snd (steps srv self as)) =
             (if step_count self + int (length as) = 100 then 0
              else step_count self + int (length as))"
    using steps_never_done[OF assms(1), of as self] assms(2,3,4) by simp
  have a: "\<forall>i < 99. done_of (fst (steps srv self as) ! i) = Some False"
    using k assms(3,4) by auto
  have b: "done_of (fst (steps srv self as) ! 99) = Some True"
    using k assms(3,4) by auto
  have c: "step_count (snd (steps srv self as)) = 0"
    using k assms(3,4) by simp
  show ?thesis using a b c step_done_resets by blast
qed

theorem step_done_exactly_on_100th_witness:
  "never_done mock_action_server
   \<and> list_all valid_action (replicate 100 (PyInt 2))
   \<and> step_count mock_env = 0
   \<and> length (replicate 100 (PyInt 2)) = 100
   \<and> map done_of (take 99 (fst (steps mock_action_server mock_env (replicate 100 (PyInt 2)))))
         = replicate 99 (Some False)
   \<and> done_of (fst (steps mock_action_server mock_env (replicate 100 (PyInt 2))) ! 99) = Some True
   \<and> step_count (snd (steps mock_action_server mock_env (replicate 100 (PyInt 2)))) = 0"
proof -
  let ?as = "replicate 100 (PyInt 2)"
  let ?rs = "fst (steps mock_action_server mock_env ?as)"
  have h1: "never_done mock_action_server" by (rule never_done_mock)
  have h2: "\<forall>a \<in> set ?as. valid_action a"
    by (simp add: valid_action_PyInt)
  have h3: "step_count mock_env = 0" by (simp add: mock_env_def)
  have h4: "length ?as = 100" by simp
  note t = step_done_exactly_on_100th[OF h1 h2 h3 h4]
  have len: "length ?rs = 100" by (simp add: length_steps)
  have "map done_of (take 99 ?rs) = replicate 99 (Some False)"
  proof (rule nth_equalityI)
    show "length (map done_of (take 99 ?rs)) = length (replicate 99 (Some False))"
      using len by simp
  next
    fix i assume "i < length (map done_of (take 99 ?rs))"
    then have i: "i < 99" by simp
    then have "done_of (?rs ! i) = Some False" using t by blast
    then show "map done_of (take 99 ?rs) ! i = replicate 99 (Some False) ! i"
      using i len by simp
  qed
  moreover have "list_all valid_action ?as" using h2 by (simp add: list_all_iff)
  ultimately show ?thesis using t h1 h3 h4 by blast
qed

lemma step_rejected:
  assumes "check_action a = Inl e"
  shows "step srv self a = (Inl e, self\<lparr>step_count := step_count self + 1\<rparr>)"
  using assms by (simp add: step_def Let_def)

lemma check_action_PyNone:
  "check_action PyNone = Inl (AssertionError ''Action cannot be None.'')"
  by (simp add: check_action_def)

text \<open>
  C7. \<^verbatim>\<open>step(None)\<close> raises the assertion error of line 103, and the bridge is as it
  was before the call: the server's state is untouched and the log of requests has no
  new entry, whatever the server.
\<close>

theorem step_None_makes_no_request:
  "fst (step srv self PyNone) = Inl (AssertionError ''Action cannot be None.'')
   \<and> sent (secured_bridge (snd (step srv self PyNone))) = sent (secured_bridge self)
   \<and> remote (secured_bridge (snd (step srv self PyNone))) = remote (secured_bridge self)"
  by (simp add: step_rejected[OF check_action_PyNone])

text \<open>
  C10. The counter is incremented on line 100, before the assertions: a call that an
  assertion rejects returns the error and leaves the object changed in exactly one
  attribute, the counter, which is one higher.
\<close>

theorem step_rejected_still_counts:
  assumes "check_action a = Inl e"
  shows "fst (step srv self a) = Inl e
       \<and> step_count (snd (step srv self a)) = step_count self + 1
       \<and> snd (step srv self a) = self\<lparr>step_count := step_count self + 1\<rparr>"
  by (simp add: step_rejected[OF assms])

theorem step_rejected_still_counts_witness:
  "check_action PyNone = Inl (AssertionError ''Action cannot be None.'')
   \<and> fst (step mock_action_server mock_env PyNone)
        = Inl (AssertionError ''Action cannot be None.'')
   \<and> step_count (snd (step mock_action_server mock_env PyNone)) = 1
   \<and> step_count mock_env = 0"
proof -
  have h: "check_action PyNone = Inl (AssertionError ''Action cannot be None.'')"
    by (simp add: check_action_def)
  have z: "step_count mock_env = 0" by (simp add: mock_env_def)
  from step_rejected_still_counts[OF h, of mock_action_server mock_env] h z
  show ?thesis by simp
qed

lemma int_0_3: "{0..3::int} = {0, 1, 2, 3}"
  by auto

lemma UNIV_FourDiscreteMotionActions: "UNIV = {LEFT, RIGHT, FORWARD, BACKWARD}"
proof -
  have "a \<in> {LEFT, RIGHT, FORWARD, BACKWARD}" for a by (cases a) simp_all
  then show ?thesis by blast
qed

lemma check_action_PyInt_values:
  "check_action (PyInt 0) = Inr LEFT" "check_action (PyInt 1) = Inr RIGHT"
  "check_action (PyInt 2) = Inr FORWARD" "check_action (PyInt 3) = Inr BACKWARD"
  by (simp_all add: check_action_def FourDiscreteMotionActions_of_def)

text \<open>
  C6. The integers 0, 1, 2, 3 decode to Left, Right, Forward, Backward in this order,
  which is a bijection from 0..3 onto the four members; \<^verbatim>\<open>None\<close>, an integer outside
  0..3 and a value of another type each fail an assertion. A member of the enum is
  accepted as it is.
\<close>

theorem check_action_bijection:
  "check_action (PyInt 0) = Inr LEFT
   \<and> check_action (PyInt 1) = Inr RIGHT
   \<and> check_action (PyInt 2) = Inr FORWARD
   \<and> check_action (PyInt 3) = Inr BACKWARD
   \<and> bij_betw (\<lambda>n. check_action (PyInt n)) {0..3} (range Inr)
   \<and> is_AssertionError (check_action PyNone)
   \<and> (\<forall>n. n < 0 \<or> 3 < n \<longrightarrow> is_AssertionError (check_action (PyInt n)))
   \<and> (\<forall>d. is_AssertionError (check_action (PyOther d)))
   \<and> (\<forall>a. check_action (PyEnum a) = Inr a)"
proof -
  have inj: "inj_on (\<lambda>n. check_action (PyInt n)) {0..3}"
    unfolding int_0_3 by (simp add: check_action_PyInt_values)
  have img: "(\<lambda>n. check_action (PyInt n)) ` {0..3} = range Inr"
    unfolding int_0_3 UNIV_FourDiscreteMotionActions
    by (simp add: check_action_PyInt_values insert_commute)
  have bij: "bij_betw (\<lambda>n. check_action (PyInt n)) {0..3} (range Inr)"
    using inj img by (simp add: bij_betw_def)
  have out: "\<forall>n. n < 0 \<or> 3 < n \<longrightarrow> is_AssertionError (check_action (PyInt n))"
    by (auto simp: check_action_def)
  have other: "\<forall>d. is_AssertionError (check_action (PyOther d))"
    by (simp add: check_action_def)
  have enum: "\<forall>a. check_action (PyEnum a) = Inr a"
    by (simp add: check_action_def)
  have none: "is_AssertionError (check_action PyNone)"
    by (simp add: check_action_def)
  show ?thesis using bij out other enum none check_action_PyInt_values by blast
qed

theorem check_action_bijection_witness:
  "is_AssertionError (check_action (PyInt 4))
   \<and> is_AssertionError (check_action (PyInt (- 1)))
   \<and> check_action (PyInt 4) = Inl (AssertionError ''Unrecognized value for the action'')"
proof -
  from check_action_bijection
  have "\<forall>n. n < 0 \<or> 3 < n \<longrightarrow> is_AssertionError (check_action (PyInt n))" by blast
  then have "is_AssertionError (check_action (PyInt 4))"
    and "is_AssertionError (check_action (PyInt (- 1)))" by simp_all
  moreover have "check_action (PyInt 4) = Inl (AssertionError ''Unrecognized value for the action'')"
    by (simp add: check_action_def)
  ultimately show ?thesis by blast
qed

text \<open>
  \<^verbatim>\<open>reset\<close> assigns nothing but the bridge's own state: the counter, like every other
  attribute, is what it was before the call.
\<close>

theorem reset_keeps_step_count:
  "snd (reset srv self) = self\<lparr>secured_bridge := snd (perform_reset srv (secured_bridge self) (channel_type self))\<rparr>
   \<and> step_count (snd (reset srv self)) = step_count self"
  by (simp add: reset_def split: prod.splits)

text \<open>
  C2. \<^verbatim>\<open>reset\<close> does not set the counter to 0. At a concrete state: 50 calls into an
  episode \<^verbatim>\<open>reset\<close> leaves the counter at 50, and the 50th call of the next episode
  returns done = True although the server reported False.
\<close>

theorem reset_mid_episode:
  "step_count (snd (reset mock_reset_server (mock_env\<lparr>step_count := 50\<rparr>))) = 50
   \<and> done_of (fst (steps mock_action_server
                      (snd (reset mock_reset_server (mock_env\<lparr>step_count := 50\<rparr>)))
                      (replicate 50 (PyInt 2))) ! 49) = Some True"
proof -
  let ?self = "snd (reset mock_reset_server (mock_env\<lparr>step_count := 50\<rparr>))"
  have c: "step_count ?self = 50"
    by (simp add: reset_def split: prod.splits)
  have v: "\<forall>a \<in> set (replicate 50 (PyInt 2)). valid_action a"
    by (simp add: valid_action_PyInt)
  have "done_of (fst (steps mock_action_server ?self (replicate 50 (PyInt 2))) ! 49)
          = Some (step_count ?self + int 49 + 1 = 100)"
    using steps_never_done[OF never_done_mock, of "replicate 50 (PyInt 2)" ?self] v c
    by simp
  then show ?thesis using c by simp
qed

lemma initiate_branch_not_Next: "initiate_branch STATUS_RUNNING reply \<noteq> Next"
  by (simp add: initiate_branch_def split: prod.splits)

lemma initiate_loop_never_responds:
  fixes STATUS_RUNNING :: 'h and srv :: "('h, 'w) handshake_server"
  assumes "initiate_loop STATUS_RUNNING srv clock name resume wait_start b = Some y"
    and "never_responds srv"
  shows False
proof -
  have "never_responds srv \<longrightarrow> False"
    apply (rule initiate_loop.raw_induct
        [where P = "\<lambda>h s c n r t b y. never_responds s \<longrightarrow> False", OF _ assms(1)])
    subgoal premises prems for f h s c n r t b y
    proof
      assume nr: "never_responds s"
      obtain reply w where rw: "s (remote b) n r = (reply, w)"
        by (cases "s (remote b) n r")
      have "fst reply = None"
        using rw nr unfolding never_responds_def by (metis fst_conv)
      then have br: "initiate_branch h reply = Continue"
        by (cases reply) (simp add: initiate_branch_def)
      have again: "f h s c n r t \<lparr>remote = w, sent = sent b @ [Handshake n r]\<rparr> = Some y"
        using prems(2) by (simp add: perform_handshake_def rw br)
      from prems(1)[OF again] nr show False by simp
    qed
    done
  then show False using assms(2) by blast
qed

text \<open>
  C1. Against a server whose every poll yields no heartbeat, \<^verbatim>\<open>_initiate\<close> does not
  return and does not raise, whatever the clock reads: the \<^verbatim>\<open>continue\<close> of line 75
  goes back to the top of the loop, and the comparison with 60 seconds on line 83 is never
  reached.
\<close>

theorem initiate_never_times_out:
  assumes "never_responds srv"
  shows "initiate STATUS_RUNNING srv clock self = None"
proof -
  have "initiate_loop STATUS_RUNNING srv clock (experiment_name self) (resume_experiment self)
          (clock (remote (secured_bridge self))) (secured_bridge self) = None"
    using initiate_loop_never_responds[OF _ assms] by (meson option.exhaust)
  then show ?thesis by (simp add: initiate_def)
qed

theorem initiate_never_times_out_witness:
  "never_responds silent_server
   \<and> initiate (1::nat) silent_server mock_clock mock_env = None"
proof -
  have h: "never_responds silent_server"
    by (simp add: never_responds_def silent_server_def)
  from initiate_never_times_out[OF h] h show ?thesis by blast
qed

text \<open>
  For comparison, a server that is silent for three polls and then reports the running
  status with the registration accepted: the loop ends at the fourth poll.
\<close>

lemma initiate_late_server:
  "initiate (1::nat) late_server mock_clock mock_env =
     Some (Inr ''registered'',
           mock_env\<lparr>secured_bridge := \<lparr>remote = 4, sent = replicate 4 (Handshake ''test-1'' False)\<rparr>\<rparr>)"
  unfolding initiate_def mock_env_def
  apply (subst initiate_loop.simps)
  apply (subst initiate_loop.simps)
  apply (subst initiate_loop.simps)
  apply (subst initiate_loop.simps)
  apply (simp add: perform_handshake_def late_server_def initiate_branch_def
      numeral_eq_Suc)
  done

section \<open>Properties of the image utilities\<close>

subsection \<open>Clipping and dividing\<close>

lemma clip_elem_simps:
  "minimum (Finite c) (maximum (Finite x) (Finite 0)) = Finite (min c (max x 0))"
  "minimum (Finite c) (maximum PosInf (Finite 0)) = Finite c"
  "minimum (Finite c) (maximum NegInf (Finite 0)) = Finite (min c 0)"
  "minimum (Finite c) (maximum NaN (Finite 0)) = NaN"
  by (auto simp: minimum_def maximum_def min_def max_def)

lemma clip_divide_elem_simps:
  "c \<noteq> 0 \<Longrightarrow> clip_divide_elem c (Finite x) = Finite (min c (max x 0) / c)"
  "c \<noteq> 0 \<Longrightarrow> clip_divide_elem c PosInf = Finite 1"
  "c \<noteq> 0 \<Longrightarrow> clip_divide_elem c NegInf = Finite (min c 0 / c)"
  "clip_divide_elem c NaN = NaN"
  by (simp_all add: clip_divide_elem_def clip_elem_simps)

lemma in_unit_clip_divide_elem:
  assumes "c \<noteq> 0" and "v \<noteq> NaN"
  shows "in_unit (clip_divide_elem c v)"
proof (cases v)
  case (Finite x)
  show ?thesis
  proof (cases "0 < c")
    case True
    have "0 \<le> min c (max x 0)" "min c (max x 0) \<le> c" using True by auto
    then show ?thesis using True Finite assms(1)
      by (simp add: clip_divide_elem_simps divide_le_eq)
  next
    case False
    then have "c < 0" using assms(1) by simp
    then have "min c (max x 0) = c" by auto
    then show ?thesis using assms(1) Finite by (simp add: clip_divide_elem_simps)
  qed
next
  case PosInf
  then show ?thesis using assms(1) by (simp add: clip_divide_elem_simps)
next
  case NegInf
  then show ?thesis using assms(1)
    by (cases "0 < c") (auto simp: clip_divide_elem_simps min_def)
next
  case NaN
  then show ?thesis using assms(2) by simp
qed

lemma FLT_bounds: "0 < FLT_UNDERFLOW" "FLT_UNDERFLOW < 1" "1 < FLT_OVERFLOW"
  by (simp_all add: FLT_UNDERFLOW_def FLT_OVERFLOW_def)

lemma in_unit_cast_float32:
  assumes "in_unit v"
  shows "in_unit (cast_float32 v)"
proof (cases v)
  case (Finite q)
  then have "0 \<le> q" "q \<le> 1" using assms by simp_all
  then show ?thesis using Finite FLT_bounds by auto
qed (use assms in simp_all)

lemma cast_float32_Finite_id:
  assumes "FLT_UNDERFLOW < \<bar>c\<bar>" and "\<bar>c\<bar> < FLT_OVERFLOW"
  shows "cast_float32 (Finite c) = Finite c"
  using assms by auto

lemma cast_float32_0: "cast_float32 (Finite 0) = Finite 0"
  using FLT_bounds by simp

lemma cast_float32_NaN_iff: "(cast_float32 v = NaN) = (v = NaN)"
  by (cases v) auto

lemma clip_divide_elem_NaN_iff:
  assumes "c \<noteq> 0"
  shows "(clip_divide_elem c v = NaN) = (v = NaN)"
  using assms by (cases v) (simp_all add: clip_divide_elem_simps)

lemma is_uint8_not_NaN: "is_uint8 v \<Longrightarrow> v \<noteq> NaN"
  by (cases v) simp_all

text \<open>Lines 90 to 92 on an array of 8-bit integers and on a \<^verbatim>\<open>float32\<close> array.\<close>

lemma clip_and_normalize_uint8:
  assumes "dtype img = uint8"
  shows "clip_and_normalize (Some (Finite c)) img
           = \<lparr>shape = shape img, dtype = float64,
              data = map (clip_divide_elem c) (data img)\<rparr>"
  using assms
  by (simp add: clip_and_normalize_def true_divide_def clip_def as_dtype_def
      clip_divide_elem_def comp_def)


lemma clip_and_normalize_float32:
  assumes "dtype img = float32" and "FLT_UNDERFLOW < \<bar>c\<bar>" and "\<bar>c\<bar> < FLT_OVERFLOW"
  shows "clip_and_normalize (Some (Finite c)) img
           = \<lparr>shape = shape img, dtype = float32,
              data = map (\<lambda>v. cast_float32 (clip_divide_elem c v)) (data img)\<rparr>"
proof -
  have c: "cast_float32 (Finite c) = Finite c"
    by (rule cast_float32_Finite_id[OF assms(2,3)])
  show ?thesis
    using assms(1)
    by (simp add: clip_and_normalize_def true_divide_def clip_def as_dtype_def
        clip_divide_elem_def comp_def c cast_float32_0 del: cast_float32.simps)
qed

lemma clip_and_normalize_None: "clip_and_normalize None img = img"
  by (simp add: clip_and_normalize_def)

subsection \<open>What the methods return\<close>

lemma process_img_msg_returns:
  assumes "imgmsg_to_cv2 cv img_msg ''bgr8'' = Inr a0"
    and "cvtColor_BGR2RGB cv a0 = Inr a1"
    and "resize cv a1 (w, h) = Inr img"
    and "shape img = [s0, s1, s2]"
    and "length (data img) = prod_list (shape img)"
  shows "process_img_msg cv (ImageMsg img_msg) w h m
           = Inr (clip_and_normalize m (img\<lparr>shape := [1, s0, s1, s2]\<rparr>))"
  using assms
  by (simp add: process_img_msg_def CvBridge_imgmsg_to_cv2_def bind_def shape_at_def
      reshape_def)

lemma process_depth_msg_returns:
  assumes "imgmsg_to_cv2 cv depth_msg ''32FC1'' = Inr cv_image"
    and "resize cv (nan_to_num (asarray_float32 cv_image)) (w, h) = Inr img"
    and "shape img = [s0, s1]"
    and "length (data img) = prod_list (shape img)"
  shows "process_depth_msg cv (ImageMsg depth_msg) w h m
           = Inr (clip_and_normalize m (img\<lparr>shape := [1, s0, s1, 1]\<rparr>))"
  using assms
  by (simp add: process_depth_msg_def CvBridge_imgmsg_to_cv2_def bind_def shape_at_def
      reshape_def)


lemma process_depth_msg_NdArray:
  "process_depth_msg cv (NdArray a) w h m
     = Inl (AttributeError ''numpy.ndarray object has no attribute encoding'')"
  by (simp add: process_depth_msg_def CvBridge_imgmsg_to_cv2_def bind_def)

subsection \<open>The stand-ins\<close>

lemma length_concat_const:
  assumes "\<And>x. x \<in> set xs \<Longrightarrow> length (f x) = n"
  shows "length (concat (map f xs)) = length xs * n"
  using assms by (induction xs) simp_all

lemma resize_nearest_3:
  assumes "shape a = [H, W, C]" "0 < H" "0 < W" "0 < w" "0 < h"
  shows "\<exists>r. resize_nearest a (w, h) = Inr r \<and> shape r = [h, w, C] \<and> dtype r = dtype a
           \<and> length (data r) = h * w * C
           \<and> set (data r) \<subseteq> insert (Finite 0) (set (data a))"
proof -
  let ?d = "concat (map (\<lambda>y. concat (map (\<lambda>x. map (\<lambda>k.
              pick (data a) (((y * H div h) * W + x * W div w) * C + k))
              [0..<C]) [0..<w])) [0..<h])"
  have r: "resize_nearest a (w, h) = Inr \<lparr>shape = [h, w, C], dtype = dtype a, data = ?d\<rparr>"
    using assms by (simp add: resize_nearest_def)
  have "length (concat (map (\<lambda>x. map (\<lambda>k.
              pick (data a) (((y * H div h) * W + x * W div w) * C + k))
              [0..<C]) [0..<w])) = w * C" for y
    by (simp add: length_concat_const)
  then have len: "length ?d = h * w * C" by (simp add: length_concat_const)
  have "pick (data a) i \<in> insert (Finite 0) (set (data a))" for i
    by (simp add: pick_def)
  then have sub: "set ?d \<subseteq> insert (Finite 0) (set (data a))" by auto
  show ?thesis using r len sub by simp
qed

lemma resize_nearest_2:
  assumes "shape a = [H, W]" "0 < H" "0 < W" "0 < w" "0 < h"
  shows "\<exists>r. resize_nearest a (w, h) = Inr r \<and> shape r = [h, w] \<and> dtype r = dtype a
           \<and> length (data r) = h * w
           \<and> set (data r) \<subseteq> insert (Finite 0) (set (data a))"
proof -
  let ?d = "concat (map (\<lambda>y. map (\<lambda>x.
              pick (data a) ((y * H div h) * W + x * W div w)) [0..<w]) [0..<h])"
  have r: "resize_nearest a (w, h) = Inr \<lparr>shape = [h, w], dtype = dtype a, data = ?d\<rparr>"
    using assms by (simp add: resize_nearest_def)
  have len: "length ?d = h * w" by (simp add: length_concat_const)
  have "pick (data a) i \<in> insert (Finite 0) (set (data a))" for i
    by (simp add: pick_def)
  then have sub: "set ?d \<subseteq> insert (Finite 0) (set (data a))" by auto
  show ?thesis using r len sub by simp
qed

lemma shape_clip_and_normalize: "shape (clip_and_normalize m x) = shape x"
  by (cases m) (simp_all add: clip_and_normalize_def true_divide_def clip_def Let_def)

lemma length_clip_and_normalize: "length (data (clip_and_normalize m x)) = length (data x)"
  by (cases m) (simp_all add: clip_and_normalize_def true_divide_def clip_def Let_def)

lemma drop_2_of_3:
  assumes "length xs = 3" and "xs ! 2 = c"
  shows "drop 2 xs = [c]"
proof -
  from assms(1) obtain a b d where "xs = [a, b, d]"
    by (metis (no_types, opaque_lifting) length_0_conv length_Suc_conv numeral_3_eq_3)
  then show ?thesis using assms(2) by simp
qed

lemma drop_2_of_2:
  assumes "length xs = 2"
  shows "drop 2 xs = []"
  using assms by simp

subsection \<open>The shapes\<close>

lemma color_shape:
  assumes "imgmsg_to_cv2 cv img_msg ''bgr8'' = Inr a0"
    and "length (shape a0) = 3" and "shape a0 ! 2 = 3"
    and "cvtColor_BGR2RGB cv a0 = Inr a1" and "shape a1 = shape a0"
    and "resize cv a1 (IMG_W, IMG_H) = Inr img"
    and "shape img = IMG_H # IMG_W # drop 2 (shape a1)"
    and "length (data img) = prod_list (shape img)"
  shows "\<exists>out. process_img_msg cv (ImageMsg img_msg) IMG_W IMG_H m = Inr out
           \<and> out = clip_and_normalize m (img\<lparr>shape := [1, 240, 320, 3]\<rparr>)
           \<and> shape out = [1, 240, 320, 3]
           \<and> length (data out) = 240 * 320 * 3"
proof -
  have s: "shape img = [240, 320, 3]"
    using assms(7) drop_2_of_3[OF assms(2,3)] assms(5) by (simp add: IMG_H_def IMG_W_def)
  have len: "length (data img) = 240 * 320 * 3" using assms(8) s by simp
  have "process_img_msg cv (ImageMsg img_msg) IMG_W IMG_H m
          = Inr (clip_and_normalize m (img\<lparr>shape := [1, 240, 320, 3]\<rparr>))"
    by (rule process_img_msg_returns[OF assms(1) assms(4) assms(6) s assms(8)])
  then show ?thesis
    using len by (simp add: shape_clip_and_normalize length_clip_and_normalize)
qed

lemma depth_shape:
  assumes "imgmsg_to_cv2 cv depth_msg ''32FC1'' = Inr cv_image"
    and "length (shape cv_image) = 2"
    and "resize cv (nan_to_num (asarray_float32 cv_image)) (IMG_W, IMG_H) = Inr img"
    and "shape img = IMG_H # IMG_W # drop 2 (shape cv_image)"
    and "length (data img) = prod_list (shape img)"
  shows "\<exists>out. process_depth_msg cv (ImageMsg depth_msg) IMG_W IMG_H m = Inr out
           \<and> out = clip_and_normalize m (img\<lparr>shape := [1, 240, 320, 1]\<rparr>)
           \<and> shape out = [1, 240, 320, 1]
           \<and> length (data out) = 240 * 320"
proof -
  have s: "shape img = [240, 320]"
    using assms(4) drop_2_of_2[OF assms(2)] by (simp add: IMG_H_def IMG_W_def)
  have len: "length (data img) = 240 * 320" using assms(5) s by simp
  have "process_depth_msg cv (ImageMsg depth_msg) IMG_W IMG_H m
          = Inr (clip_and_normalize m (img\<lparr>shape := [1, 240, 320, 1]\<rparr>))"
    by (rule process_depth_msg_returns[OF assms(1) assms(3) s assms(5)])
  then show ?thesis
    using len by (simp add: shape_clip_and_normalize length_clip_and_normalize)
qed

text \<open>
  C9. The observation space has shape [1, 240, 320, c] with c = 1 for depth only, 3 for
  RGB only and 4 for RGBD. With the default size, whatever the resolution of the frame,
  \<^verbatim>\<open>process_img_msg\<close> returns an array of shape [1, 240, 320, 3] with 240 * 320 * 3
  elements and \<^verbatim>\<open>process_depth_msg\<close> one of shape [1, 240, 320, 1] with 240 * 320
  elements: the resized frame under the new shape, clipped and divided when a maximum is
  given. The hypotheses say that the library calls made for this frame succeed and keep
  their contracts: the \<^verbatim>\<open>bgr8\<close> decoding has three channels and the \<^verbatim>\<open>32FC1\<close> decoding
  none, the colour conversion keeps the shape, and the resize to (width, height) returns
  height rows and width columns with the channels of its argument.
\<close>

theorem observation_shapes:
  "observation_space_shape DEPTH_ONLY = [1, 240, 320, 1]
   \<and> observation_space_shape RGB_ONLY = [1, 240, 320, 3]
   \<and> observation_space_shape RGBD = [1, 240, 320, 4]
   \<and> (\<forall>cv (img_msg :: 'm) m a0 a1 img.
         imgmsg_to_cv2 cv img_msg ''bgr8'' = Inr a0 \<longrightarrow>
         length (shape a0) = 3 \<longrightarrow> shape a0 ! 2 = 3 \<longrightarrow>
         cvtColor_BGR2RGB cv a0 = Inr a1 \<longrightarrow> shape a1 = shape a0 \<longrightarrow>
         resize cv a1 (IMG_W, IMG_H) = Inr img \<longrightarrow>
         shape img = IMG_H # IMG_W # drop 2 (shape a1) \<longrightarrow>
         length (data img) = prod_list (shape img) \<longrightarrow>
         (\<exists>out. process_img_msg cv (ImageMsg img_msg) IMG_W IMG_H m = Inr out
                \<and> out = clip_and_normalize m (img\<lparr>shape := [1, 240, 320, 3]\<rparr>)
                \<and> shape out = [1, 240, 320, 3]
                \<and> length (data out) = 240 * 320 * 3))
   \<and> (\<forall>cv (depth_msg :: 'm) m cv_image img.
         imgmsg_to_cv2 cv depth_msg ''32FC1'' = Inr cv_image \<longrightarrow>
         length (shape cv_image) = 2 \<longrightarrow>
         resize cv (nan_to_num (asarray_float32 cv_image)) (IMG_W, IMG_H) = Inr img \<longrightarrow>
         shape img = IMG_H # IMG_W # drop 2 (shape cv_image) \<longrightarrow>
         length (data img) = prod_list (shape img) \<longrightarrow>
         (\<exists>out. process_depth_msg cv (ImageMsg depth_msg) IMG_W IMG_H m = Inr out
                \<and> out = clip_and_normalize m (img\<lparr>shape := [1, 240, 320, 1]\<rparr>)
                \<and> shape out = [1, 240, 320, 1]
                \<and> length (data out) = 240 * 320))"
proof -
  have obs: "observation_space_shape DEPTH_ONLY = [1, 240, 320, 1]"
    "observation_space_shape RGB_ONLY = [1, 240, 320, 3]"
    "observation_space_shape RGBD = [1, 240, 320, 4]"
    by (simp_all add: observation_space_shape_def common_IMG_H_def common_IMG_W_def)
  show ?thesis
  proof (intro conjI allI impI)
    fix cv :: "'m cv" and img_msg m a0 a1 img
    assume "imgmsg_to_cv2 cv img_msg ''bgr8'' = Inr a0"
      "length (shape a0) = 3" "shape a0 ! 2 = 3"
      "cvtColor_BGR2RGB cv a0 = Inr a1" "shape a1 = shape a0"
      "resize cv a1 (IMG_W, IMG_H) = Inr img"
      "shape img = IMG_H # IMG_W # drop 2 (shape a1)"
      "length (data img) = prod_list (shape img)"
    then show "\<exists>out. process_img_msg cv (ImageMsg img_msg) IMG_W IMG_H m = Inr out
                \<and> out = clip_and_normalize m (img\<lparr>shape := [1, 240, 320, 3]\<rparr>)
                \<and> shape out = [1, 240, 320, 3]
                \<and> length (data out) = 240 * 320 * 3"
      by (rule color_shape)
  next
    fix cv :: "'m cv" and depth_msg m cv_image img
    assume "imgmsg_to_cv2 cv depth_msg ''32FC1'' = Inr cv_image"
      "length (shape cv_image) = 2"
      "resize cv (nan_to_num (asarray_float32 cv_image)) (IMG_W, IMG_H) = Inr img"
      "shape img = IMG_H # IMG_W # drop 2 (shape cv_image)"
      "length (data img) = prod_list (shape img)"
    then show "\<exists>out. process_depth_msg cv (ImageMsg depth_msg) IMG_W IMG_H m = Inr out
                \<and> out = clip_and_normalize m (img\<lparr>shape := [1, 240, 320, 1]\<rparr>)
                \<and> shape out = [1, 240, 320, 1]
                \<and> length (data out) = 240 * 320"
      by (rule depth_shape)
  qed (rule obs)+
qed

theorem observation_shapes_witness:
  "(\<exists>out. process_img_msg test_cv (ImageMsg color_frame) IMG_W IMG_H None = Inr out
            \<and> shape out = [1, 240, 320, 3] \<and> length (data out) = 240 * 320 * 3)
   \<and> (\<exists>out. process_depth_msg test_cv (ImageMsg depth_frame) IMG_W IMG_H (Some (Finite 10))
              = Inr out
            \<and> shape out = [1, 240, 320, 1] \<and> length (data out) = 240 * 320)"
proof -
  let ?a1 = "color_frame\<lparr>data := swap_BGR (data color_frame)\<rparr>"
  have d: "imgmsg_to_cv2 test_cv color_frame ''bgr8'' = Inr color_frame"
    by (simp add: test_cv_def)
  have l: "length (shape color_frame) = 3" "shape color_frame ! 2 = 3"
    by (simp_all add: color_frame_def)
  have c: "cvtColor_BGR2RGB test_cv color_frame = Inr ?a1" by (simp add: test_cv_def)
  have sc: "shape ?a1 = shape color_frame" by simp
  have "shape ?a1 = [1, 2, 3]" by (simp add: color_frame_def)
  from resize_nearest_3[OF this, of IMG_W IMG_H]
  obtain img where r: "resize test_cv ?a1 (IMG_W, IMG_H) = Inr img"
    and s: "shape img = [IMG_H, IMG_W, 3]" and len: "length (data img) = IMG_H * IMG_W * 3"
    by (auto simp: test_cv_def IMG_W_def IMG_H_def)
  have s': "shape img = IMG_H # IMG_W # drop 2 (shape ?a1)"
    using s by (simp add: color_frame_def)
  have len': "length (data img) = prod_list (shape img)" using s len by simp
  note t = observation_shapes[where 'm = ndarray]
  note tc = t[THEN conjunct2, THEN conjunct2, THEN conjunct2, THEN conjunct1, rule_format]
  note td = t[THEN conjunct2, THEN conjunct2, THEN conjunct2, THEN conjunct2, rule_format]
  from tc[OF d l c sc r s' len', of None] obtain o1 where
    "process_img_msg test_cv (ImageMsg color_frame) IMG_W IMG_H None = Inr o1"
    "shape o1 = [1, 240, 320, 3]" "length (data o1) = 240 * 320 * 3"
    by (elim exE conjE)
  then have color: "\<exists>out. process_img_msg test_cv (ImageMsg color_frame) IMG_W IMG_H None = Inr out
            \<and> shape out = [1, 240, 320, 3] \<and> length (data out) = 240 * 320 * 3"
    by (intro exI conjI)
  let ?d = "nan_to_num (asarray_float32 depth_frame)"
  have dd: "imgmsg_to_cv2 test_cv depth_frame ''32FC1'' = Inr depth_frame"
    by (simp add: test_cv_def)
  have dl: "length (shape depth_frame) = 2" by (simp add: depth_frame_def)
  have "shape ?d = [2, 2]" by (simp add: nan_to_num_def asarray_float32_def depth_frame_def)
  from resize_nearest_2[OF this, of IMG_W IMG_H]
  obtain dimg where dr: "resize test_cv ?d (IMG_W, IMG_H) = Inr dimg"
    and ds: "shape dimg = [IMG_H, IMG_W]" and dlen: "length (data dimg) = IMG_H * IMG_W"
    by (auto simp: test_cv_def IMG_W_def IMG_H_def)
  have ds': "shape dimg = IMG_H # IMG_W # drop 2 (shape depth_frame)"
    using ds by (simp add: depth_frame_def)
  have dlen': "length (data dimg) = prod_list (shape dimg)" using ds dlen by simp
  from td[OF dd dl dr ds' dlen', of "Some (Finite 10)"] obtain o2 where
    "process_depth_msg test_cv (ImageMsg depth_frame) IMG_W IMG_H (Some (Finite 10)) = Inr o2"
    "shape o2 = [1, 240, 320, 1]" "length (data o2) = 240 * 320"
    by (elim exE conjE)
  then have depth: "\<exists>out. process_depth_msg test_cv (ImageMsg depth_frame) IMG_W IMG_H
                (Some (Finite 10)) = Inr out
            \<and> shape out = [1, 240, 320, 1] \<and> length (data out) = 240 * 320"
    by (intro exI conjI)
  show ?thesis using color depth by blast
qed

subsection \<open>The range of the elements\<close>

lemma wellformed_uint8_not_NaN:
  assumes "wellformed img" and "dtype img = uint8"
  shows "\<forall>v \<in> set (data img). v \<noteq> NaN"
  using assms by (auto simp: wellformed_def list_all_iff dest: is_uint8_not_NaN)

lemma color_range:
  assumes "imgmsg_to_cv2 cv img_msg ''bgr8'' = Inr a0"
    and "cvtColor_BGR2RGB cv a0 = Inr a1"
    and "resize cv a1 (w, h) = Inr img"
    and "shape img = [s0, s1, s2]" and "dtype img = uint8" and "wellformed img"
  shows "process_img_msg cv (ImageMsg img_msg) w h None = Inr (img\<lparr>shape := [1, s0, s1, s2]\<rparr>)"
    and "c \<noteq> 0 \<Longrightarrow> process_img_msg cv (ImageMsg img_msg) w h (Some (Finite c))
           = Inr \<lparr>shape = [1, s0, s1, s2], dtype = float64,
                  data = map (clip_divide_elem c) (data img)\<rparr>"
    and "c \<noteq> 0 \<Longrightarrow> list_all in_unit (map (clip_divide_elem c) (data img))"
proof -
  have len: "length (data img) = prod_list (shape img)"
    using assms(6) by (simp add: wellformed_def)
  note r = process_img_msg_returns[OF assms(1,2,3,4) len]
  show "process_img_msg cv (ImageMsg img_msg) w h None = Inr (img\<lparr>shape := [1, s0, s1, s2]\<rparr>)"
    using r[of None] by (simp add: clip_and_normalize_None)
  show "process_img_msg cv (ImageMsg img_msg) w h (Some (Finite c))
           = Inr \<lparr>shape = [1, s0, s1, s2], dtype = float64,
                  data = map (clip_divide_elem c) (data img)\<rparr>"
    using r[of "Some (Finite c)"] assms(5) by (simp add: clip_and_normalize_uint8)
  show "list_all in_unit (map (clip_divide_elem c) (data img))" if "c \<noteq> 0"
    using wellformed_uint8_not_NaN[OF assms(6,5)] that
    by (simp add: list_all_iff in_unit_clip_divide_elem)
qed

lemma depth_range:
  assumes "imgmsg_to_cv2 cv depth_msg ''32FC1'' = Inr cv_image"
    and "resize cv (nan_to_num (asarray_float32 cv_image)) (w, h) = Inr img"
    and "shape img = [s0, s1]" and "dtype img = float32" and "wellformed img"
  shows "process_depth_msg cv (ImageMsg depth_msg) w h None = Inr (img\<lparr>shape := [1, s0, s1, 1]\<rparr>)"
    and "FLT_UNDERFLOW < \<bar>c\<bar> \<Longrightarrow> \<bar>c\<bar> < FLT_OVERFLOW \<Longrightarrow>
         process_depth_msg cv (ImageMsg depth_msg) w h (Some (Finite c))
           = Inr \<lparr>shape = [1, s0, s1, 1], dtype = float32,
                  data = map (\<lambda>v. cast_float32 (clip_divide_elem c v)) (data img)\<rparr>"
    and "FLT_UNDERFLOW < \<bar>c\<bar> \<Longrightarrow>
         list_all2 (\<lambda>v r. if v = NaN then r = NaN else in_unit r) (data img)
           (map (\<lambda>v. cast_float32 (clip_divide_elem c v)) (data img))"
proof -
  have len: "length (data img) = prod_list (shape img)"
    using assms(5) by (simp add: wellformed_def)
  note r = process_depth_msg_returns[OF assms(1,2,3) len]
  show "process_depth_msg cv (ImageMsg depth_msg) w h None = Inr (img\<lparr>shape := [1, s0, s1, 1]\<rparr>)"
    using r[of None] by (simp add: clip_and_normalize_None)
  show "process_depth_msg cv (ImageMsg depth_msg) w h (Some (Finite c))
           = Inr \<lparr>shape = [1, s0, s1, 1], dtype = float32,
                  data = map (\<lambda>v. cast_float32 (clip_divide_elem c v)) (data img)\<rparr>"
    if "FLT_UNDERFLOW < \<bar>c\<bar>" "\<bar>c\<bar> < FLT_OVERFLOW"
    using r[of "Some (Finite c)"] assms(4) that by (simp add: clip_and_normalize_float32)
  show "list_all2 (\<lambda>v r. if v = NaN then r = NaN else in_unit r) (data img)
           (map (\<lambda>v. cast_float32 (clip_divide_elem c v)) (data img))"
    if "FLT_UNDERFLOW < \<bar>c\<bar>"
  proof -
    have c0: "c \<noteq> 0" using that FLT_bounds(1) by auto
    have "if v = NaN then cast_float32 (clip_divide_elem c v) = NaN
          else in_unit (cast_float32 (clip_divide_elem c v))" for v
      using in_unit_cast_float32[OF in_unit_clip_divide_elem[OF c0, of v]]
      by (simp add: clip_divide_elem_simps)
    then show ?thesis by (simp add: list_all2_map2 list_all2_same)
  qed
qed

text \<open>
  C8, amended. Without a maximum both methods return the resized frame as it is, under
  its new shape. With a finite maximum \<open>c\<close> other than 0 (for a depth frame: one that
  \<^verbatim>\<open>float32\<close> holds as a nonzero finite number) they return it with every element
  clipped to the range from 0 to \<open>c\<close> and then divided by \<open>c\<close>; every element returned
  for a colour frame lies between 0 and 1, and so does every element returned for a depth
  frame, but for NaN where the resize produced NaN. The hypotheses say that the library
  calls made for this frame succeed and return a well-formed array of the frame's type.
\<close>

theorem clip_and_normalize_range:
  "(\<forall>cv (img_msg :: 'm) w h a0 a1 img s0 s1 s2.
      imgmsg_to_cv2 cv img_msg ''bgr8'' = Inr a0 \<longrightarrow>
      cvtColor_BGR2RGB cv a0 = Inr a1 \<longrightarrow>
      resize cv a1 (w, h) = Inr img \<longrightarrow>
      shape img = [s0, s1, s2] \<longrightarrow> dtype img = uint8 \<longrightarrow> wellformed img \<longrightarrow>
        process_img_msg cv (ImageMsg img_msg) w h None
          = Inr (img\<lparr>shape := [1, s0, s1, s2]\<rparr>)
        \<and> (\<forall>c. c \<noteq> 0 \<longrightarrow>
              process_img_msg cv (ImageMsg img_msg) w h (Some (Finite c))
                = Inr \<lparr>shape = [1, s0, s1, s2], dtype = float64,
                       data = map (clip_divide_elem c) (data img)\<rparr>
              \<and> list_all in_unit (map (clip_divide_elem c) (data img))))
   \<and> (\<forall>cv (depth_msg :: 'm) w h cv_image img s0 s1.
      imgmsg_to_cv2 cv depth_msg ''32FC1'' = Inr cv_image \<longrightarrow>
      resize cv (nan_to_num (asarray_float32 cv_image)) (w, h) = Inr img \<longrightarrow>
      shape img = [s0, s1] \<longrightarrow> dtype img = float32 \<longrightarrow> wellformed img \<longrightarrow>
        process_depth_msg cv (ImageMsg depth_msg) w h None
          = Inr (img\<lparr>shape := [1, s0, s1, 1]\<rparr>)
        \<and> (\<forall>c. FLT_UNDERFLOW < \<bar>c\<bar> \<longrightarrow> \<bar>c\<bar> < FLT_OVERFLOW \<longrightarrow>
              process_depth_msg cv (ImageMsg depth_msg) w h (Some (Finite c))
                = Inr \<lparr>shape = [1, s0, s1, 1], dtype = float32,
                       data = map (\<lambda>v. cast_float32 (clip_divide_elem c v)) (data img)\<rparr>
              \<and> list_all2 (\<lambda>v r. if v = NaN then r = NaN else in_unit r) (data img)
                   (map (\<lambda>v. cast_float32 (clip_divide_elem c v)) (data img))))"
proof (intro conjI allI impI)
  fix cv :: "'m cv" and img_msg w h a0 a1 img s0 s1 s2
  assume a: "imgmsg_to_cv2 cv img_msg ''bgr8'' = Inr a0"
    "cvtColor_BGR2RGB cv a0 = Inr a1" "resize cv a1 (w, h) = Inr img"
    "shape img = [s0, s1, s2]" "dtype img = uint8" "wellformed img"
  show "process_img_msg cv (ImageMsg img_msg) w h None = Inr (img\<lparr>shape := [1, s0, s1, s2]\<rparr>)"
    by (rule color_range(1)[OF a])
  fix c :: real
  assume c: "c \<noteq> 0"
  show "process_img_msg cv (ImageMsg img_msg) w h (Some (Finite c))
          = Inr \<lparr>shape = [1, s0, s1, s2], dtype = float64,
                 data = map (clip_divide_elem c) (data img)\<rparr>"
    by (rule color_range(2)[OF a c])
  show "list_all in_unit (map (clip_divide_elem c) (data img))"
    by (rule color_range(3)[OF a c])
next
  fix cv :: "'m cv" and depth_msg w h cv_image img s0 s1
  assume a: "imgmsg_to_cv2 cv depth_msg ''32FC1'' = Inr cv_image"
    "resize cv (nan_to_num (asarray_float32 cv_image)) (w, h) = Inr img"
    "shape img = [s0, s1]" "dtype img = float32" "wellformed img"
  show "process_depth_msg cv (ImageMsg depth_msg) w h None = Inr (img\<lparr>shape := [1, s0, s1, 1]\<rparr>)"
    by (rule depth_range(1)[OF a])
  fix c :: real
  assume c: "FLT_UNDERFLOW < \<bar>c\<bar>" "\<bar>c\<bar> < FLT_OVERFLOW"
  show "process_depth_msg cv (ImageMsg depth_msg) w h (Some (Finite c))
          = Inr \<lparr>shape = [1, s0, s1, 1], dtype = float32,
                 data = map (\<lambda>v. cast_float32 (clip_divide_elem c v)) (data img)\<rparr>"
    by (rule depth_range(2)[OF a c])
  show "list_all2 (\<lambda>v r. if v = NaN then r = NaN else in_unit r) (data img)
          (map (\<lambda>v. cast_float32 (clip_divide_elem c v)) (data img))"
    by (rule depth_range(3)[OF a c(1)])
qed

subsection \<open>Evaluation at concrete frames\<close>

lemmas eval_defs = process_img_msg_def process_depth_msg_def CvBridge_imgmsg_to_cv2_def
  bind_def shape_at_def reshape_def clip_and_normalize_def true_divide_def clip_def
  as_dtype_def nan_to_num_def asarray_float32_def test_cv_def linear_cv_def
  resize_nearest_def resize_linear_def resize_line_def source_position_def lerp32_def
  pick_def minimum_def maximum_def color_frame_def depth_frame_def column_frame_def
  FLT_MAX_def FLT_OVERFLOW_def FLT_UNDERFLOW_def Let_def eval_nat_numeral

lemma resize_color_frame:
  "resize test_cv (color_frame\<lparr>data := swap_BGR (data color_frame)\<rparr>) (1, 1)
     = Inr \<lparr>shape = [1, 1, 3], dtype = uint8, data = [Finite 30, Finite 20, Finite 10]\<rparr>"
  by (simp add: eval_defs)

lemma resize_depth_frame:
  "resize test_cv (nan_to_num (asarray_float32 depth_frame)) (2, 2)
     = Inr \<lparr>shape = [2, 2], dtype = float32,
            data = [Finite FLT_MAX, Finite 0, Finite (- FLT_MAX), Finite 3]\<rparr>"
  by (simp add: eval_defs)

theorem clip_and_normalize_range_witness:
  "process_img_msg test_cv (ImageMsg color_frame) 1 1 None
     = Inr \<lparr>shape = [1, 1, 1, 3], dtype = uint8,
            data = [Finite 30, Finite 20, Finite 10]\<rparr>
   \<and> process_img_msg test_cv (ImageMsg color_frame) 1 1 (Some (Finite 255))
     = Inr \<lparr>shape = [1, 1, 1, 3], dtype = float64,
            data = map (clip_divide_elem 255) [Finite 30, Finite 20, Finite 10]\<rparr>
   \<and> list_all in_unit (map (clip_divide_elem 255) [Finite 30, Finite 20, Finite 10])
   \<and> process_depth_msg test_cv (ImageMsg depth_frame) 2 2 None
     = Inr \<lparr>shape = [1, 2, 2, 1], dtype = float32,
            data = [Finite FLT_MAX, Finite 0, Finite (- FLT_MAX), Finite 3]\<rparr>
   \<and> process_depth_msg test_cv (ImageMsg depth_frame) 2 2 (Some (Finite 10))
     = Inr \<lparr>shape = [1, 2, 2, 1], dtype = float32,
            data = map (\<lambda>v. cast_float32 (clip_divide_elem 10 v))
                     [Finite FLT_MAX, Finite 0, Finite (- FLT_MAX), Finite 3]\<rparr>
   \<and> list_all2 (\<lambda>v r. if v = NaN then r = NaN else in_unit r)
         [Finite FLT_MAX, Finite 0, Finite (- FLT_MAX), Finite 3]
         (map (\<lambda>v. cast_float32 (clip_divide_elem 10 v))
            [Finite FLT_MAX, Finite 0, Finite (- FLT_MAX), Finite 3])"
proof -
  let ?img = "\<lparr>shape = [1, 1, 3], dtype = uint8, data = [Finite 30, Finite 20, Finite 10]\<rparr>"
  let ?dimg = "\<lparr>shape = [2, 2], dtype = float32,
                data = [Finite FLT_MAX, Finite 0, Finite (- FLT_MAX), Finite 3]\<rparr>"
  have d: "imgmsg_to_cv2 test_cv color_frame ''bgr8'' = Inr color_frame"
    by (simp add: test_cv_def)
  have c: "cvtColor_BGR2RGB test_cv color_frame
             = Inr (color_frame\<lparr>data := swap_BGR (data color_frame)\<rparr>)"
    by (simp add: test_cv_def)
  note r = resize_color_frame
  have s: "shape ?img = [1, 1, 3]" "dtype ?img = uint8" by simp_all
  have w: "wellformed ?img" by (simp add: wellformed_def)
  have c255: "(255 :: real) \<noteq> 0" by simp
  note t = clip_and_normalize_range[where 'm = ndarray]
  note tc = t[THEN conjunct1, rule_format, OF d c r s w]
  note tc1 = tc[THEN conjunct1]
  note tc2 = tc[THEN conjunct2, rule_format, OF c255]
  have dd: "imgmsg_to_cv2 test_cv depth_frame ''32FC1'' = Inr depth_frame"
    by (simp add: test_cv_def)
  note dr = resize_depth_frame
  have ds: "shape ?dimg = [2, 2]" "dtype ?dimg = float32" by simp_all
  have dw: "wellformed ?dimg" by (simp add: wellformed_def)
  have c10: "FLT_UNDERFLOW < \<bar>10 :: real\<bar>" "\<bar>10 :: real\<bar> < FLT_OVERFLOW"
    by (simp_all add: FLT_UNDERFLOW_def FLT_OVERFLOW_def)
  note td = t[THEN conjunct2, rule_format, OF dd dr ds dw]
  note td1 = td[THEN conjunct1]
  note td2 = td[THEN conjunct2, rule_format, OF c10]
  show ?thesis
    using tc1 tc2 td1 td2 by (simp del: cast_float32.simps list.map)
qed

text \<open>
  C8, as stated, fails. For the maximum 0 the clip to the range from 0 to 0 and the
  division by 0 give NaN, which is not between 0 and 1; so do the maximum NaN and the
  maximum minus infinity; so does, for a depth frame, a positive maximum that
  \<^verbatim>\<open>float32\<close> rounds to 0. And where the linear resize of a depth frame yields NaN
  (between the largest and the most negative \<^verbatim>\<open>float32\<close>, at the fraction 0), the
  returned element is NaN whatever the maximum.
\<close>

theorem clip_and_normalize_zero_max:
  "process_img_msg test_cv (ImageMsg color_frame) 1 1 (Some (Finite 0))
     = Inr \<lparr>shape = [1, 1, 1, 3], dtype = float64, data = [NaN, NaN, NaN]\<rparr>
   \<and> process_img_msg test_cv (ImageMsg color_frame) 1 1 (Some NaN)
     = Inr \<lparr>shape = [1, 1, 1, 3], dtype = float64, data = [NaN, NaN, NaN]\<rparr>
   \<and> process_img_msg test_cv (ImageMsg color_frame) 1 1 (Some NegInf)
     = Inr \<lparr>shape = [1, 1, 1, 3], dtype = float64, data = [NaN, NaN, NaN]\<rparr>
   \<and> process_depth_msg test_cv (ImageMsg depth_frame) 2 2 (Some (Finite (1 / 2 ^ 200)))
     = Inr \<lparr>shape = [1, 2, 2, 1], dtype = float32, data = [NaN, NaN, NaN, NaN]\<rparr>
   \<and> process_depth_msg linear_cv (ImageMsg column_frame) 1 6 (Some (Finite 10))
     = Inr \<lparr>shape = [1, 6, 1, 1], dtype = float32,
            data = [Finite 1, NaN, Finite 0, Finite 0, Finite 0, Finite 0]\<rparr>
   \<and> \<not> in_unit NaN"
  apply (intro conjI)
       apply (simp add: eval_defs)
      apply (simp add: eval_defs)
     apply (simp add: eval_defs)
    apply (simp add: eval_defs)
   apply (simp add: eval_defs)
  apply simp
  done

subsection \<open>Infinities in a depth frame\<close>

text \<open>
  C4. A depth frame of two rows and two columns that holds both infinities, resized to
  three columns and one row without a maximum. The infinities become the largest and the
  most negative finite \<^verbatim>\<open>float32\<close>, not 0, before the resize, and the linear
  interpolation between the two overflows: the first element of the returned frame is
  minus infinity. With the maximum 0 every element of the returned frame is NaN.
\<close>

theorem process_depth_msg_returns_infinity:
  "nan_to_num (asarray_float32 depth_frame)
     = \<lparr>shape = [2, 2], dtype = float32,
        data = [Finite FLT_MAX, Finite 0, Finite (- FLT_MAX), Finite 3]\<rparr>
   \<and> Finite FLT_MAX \<noteq> Finite 0
   \<and> (\<exists>out. process_depth_msg linear_cv (ImageMsg depth_frame) 3 1 None = Inr out
            \<and> shape out = [1, 1, 3, 1]
            \<and> data out ! 0 = NegInf
            \<and> \<not> all_finite out)
   \<and> process_depth_msg test_cv (ImageMsg depth_frame) 2 2 (Some (Finite 0))
     = Inr \<lparr>shape = [1, 2, 2, 1], dtype = float32, data = [NaN, NaN, NaN, NaN]\<rparr>"
proof -
  have a: "nan_to_num (asarray_float32 depth_frame)
     = \<lparr>shape = [2, 2], dtype = float32,
        data = [Finite FLT_MAX, Finite 0, Finite (- FLT_MAX), Finite 3]\<rparr>"
    by (simp add: nan_to_num_def asarray_float32_def depth_frame_def
        FLT_OVERFLOW_def FLT_UNDERFLOW_def)
  have b: "Finite FLT_MAX \<noteq> Finite 0" by (simp add: FLT_MAX_def)
  have c: "process_depth_msg linear_cv (ImageMsg depth_frame) 3 1 None
     = Inr \<lparr>shape = [1, 1, 3, 1], dtype = float32,
            data = [NegInf, Finite (3 / 4), Finite (3 / 2)]\<rparr>"
    by (simp add: eval_defs)
  have c': "\<exists>out. process_depth_msg linear_cv (ImageMsg depth_frame) 3 1 None = Inr out
            \<and> shape out = [1, 1, 3, 1]
            \<and> data out ! 0 = NegInf
            \<and> \<not> all_finite out"
    unfolding c by (simp add: all_finite_def)
  have d: "process_depth_msg test_cv (ImageMsg depth_frame) 2 2 (Some (Finite 0))
     = Inr \<lparr>shape = [1, 2, 2, 1], dtype = float32, data = [NaN, NaN, NaN, NaN]\<rparr>"
    by (simp add: eval_defs)
  show ?thesis using a b c' d by (intro conjI)
qed

subsection \<open>Normalizing twice\<close>











end
